theory Spec2Isabelle
  imports Complex_Main "HOL-Library.Word" "HOL-Library.Multiset"
begin

section \<open>The dex collector: data model\<close>

text \<open>
  The development embeds \<^verbatim>\<open>src/collector.go\<close>: the Prometheus collector that lists the
  containers of a Docker host, filters them by a regular expression and sends, for each
  of them, lifecycle metrics and (for running containers) resource metrics on a channel.

  Go's \<^verbatim>\<open>uint64\<close> is \<open>64 word\<close>: subtraction and addition wrap around.
\<close>

type_synonym uint64 = "64 word"

text \<open>
  A \<^verbatim>\<open>float64\<close> is modelled by the real number it denotes, together with the three
  special values of IEEE 754 that the collector can produce. Division follows IEEE 754
  where it differs in kind from real division: a zero divisor gives \<open>NaN\<close> or an
  infinity and never stops the program. Rounding to the 53-bit significand is not
  modelled: a finite result is the exact real result. Every number the collector converts
  is an unsigned integer, so negative zero does not occur and zero carries no sign.
\<close>

datatype float64 = Fin real | PosInf | NegInf | NaN

fun fdiv :: "float64 \<Rightarrow> float64 \<Rightarrow> float64" where
  "fdiv NaN y = NaN"
| "fdiv x NaN = NaN"
| "fdiv (Fin a) (Fin b) =
     (if b = 0 then (if a = 0 then NaN else if 0 < a then PosInf else NegInf)
      else Fin (a / b))"
| "fdiv (Fin a) PosInf = Fin 0"
| "fdiv (Fin a) NegInf = Fin 0"
| "fdiv PosInf (Fin b) = (if b < 0 then NegInf else PosInf)"
| "fdiv NegInf (Fin b) = (if b < 0 then PosInf else NegInf)"
| "fdiv PosInf PosInf = NaN"
| "fdiv PosInf NegInf = NaN"
| "fdiv NegInf PosInf = NaN"
| "fdiv NegInf NegInf = NaN"

fun fmul :: "float64 \<Rightarrow> float64 \<Rightarrow> float64" where
  "fmul NaN y = NaN"
| "fmul x NaN = NaN"
| "fmul (Fin a) (Fin b) = Fin (a * b)"
| "fmul (Fin a) PosInf = (if a = 0 then NaN else if 0 < a then PosInf else NegInf)"
| "fmul (Fin a) NegInf = (if a = 0 then NaN else if 0 < a then NegInf else PosInf)"
| "fmul PosInf (Fin b) = (if b = 0 then NaN else if 0 < b then PosInf else NegInf)"
| "fmul NegInf (Fin b) = (if b = 0 then NaN else if 0 < b then NegInf else PosInf)"
| "fmul PosInf PosInf = PosInf"
| "fmul PosInf NegInf = NegInf"
| "fmul NegInf PosInf = NegInf"
| "fmul NegInf NegInf = PosInf"

text \<open>The conversions \<^verbatim>\<open>float64(x)\<close> of a \<^verbatim>\<open>uint64\<close> and of an \<^verbatim>\<open>int\<close>.\<close>

definition float64_of_uint64 :: "uint64 \<Rightarrow> float64" where
  "float64_of_uint64 x = Fin (real (unat x))"

definition float64_of_int :: "int \<Rightarrow> float64" where
  "float64_of_int x = Fin (real_of_int x)"

subsection \<open>Strings\<close>

text \<open>
  A Go string is a byte sequence: \<open>string\<close>. \<^verbatim>\<open>strings.Join\<close> and
  \<^verbatim>\<open>strings.TrimPrefix\<close> work on bytes.
\<close>

fun Join :: "string list \<Rightarrow> string \<Rightarrow> string" where
  "Join [] sep = []"
| "Join [x] sep = x"
| "Join (x # y # zs) sep = x @ sep @ Join (y # zs) sep"

definition TrimPrefix :: "string \<Rightarrow> string \<Rightarrow> string" where
  "TrimPrefix s p = (if take (length p) s = p then drop (length p) s else s)"

text \<open>
  \<^verbatim>\<open>strings.EqualFold\<close> compares under Unicode simple case folding. The collector calls
  it with the constants \<^verbatim>\<open>"read"\<close> and \<^verbatim>\<open>"write"\<close> only, and none of their letters has a
  case variant outside ASCII, so on these calls it is equality after mapping the ASCII
  capitals to small letters.
\<close>

definition toLower :: "char \<Rightarrow> char" where
  "toLower c =
     (if (65::nat) \<le> of_char c \<and> of_char c \<le> (90::nat)
      then (case c of Char b0 b1 b2 b3 b4 b5 b6 b7 \<Rightarrow> Char b0 b1 b2 b3 b4 True b6 b7)
      else c)"

definition EqualFold :: "string \<Rightarrow> string \<Rightarrow> bool" where
  "EqualFold s t = (map toLower s = map toLower t)"

subsection \<open>The Docker API types\<close>

text \<open>
  The fields of \<^verbatim>\<open>container.Summary\<close>, \<^verbatim>\<open>container.InspectResponse\<close> and
  \<^verbatim>\<open>container.StatsResponse\<close> that the collector reads. A Go map is a partial function;
  reading a missing key gives the zero value of the element type.
\<close>

record Summary =
  ID :: string
  Names :: "string list"
  State :: string

record InspectResponse =
  RestartCount :: int

record CPUUsage_t =
  TotalUsage :: uint64

record CPUStats_t =
  CPUUsage :: CPUUsage_t
  SystemUsage :: uint64

record MemoryStats_t =
  Usage :: uint64
  Stats :: "string \<rightharpoonup> uint64"
  Limit :: uint64

record NetworkStats =
  RxBytes :: uint64
  TxBytes :: uint64

record BlkioStatEntry =
  Op :: string
  Value :: uint64

record BlkioStats_t =
  IoServiceBytesRecursive :: "BlkioStatEntry list"

record PidsStats_t =
  Current :: uint64

record StatsResponse =
  CPUStats :: CPUStats_t
  PreCPUStats :: CPUStats_t
  MemoryStats :: MemoryStats_t
  Networks :: "string \<rightharpoonup> NetworkStats"
  BlkioStats :: BlkioStats_t
  PidsStats :: PidsStats_t

definition Stats_at :: "(string \<rightharpoonup> uint64) \<Rightarrow> string \<Rightarrow> uint64" where
  "Stats_at m k = (case m k of None \<Rightarrow> 0 | Some v \<Rightarrow> v)"

definition Networks_at :: "(string \<rightharpoonup> NetworkStats) \<Rightarrow> string \<Rightarrow> NetworkStats" where
  "Networks_at m k = (case m k of None \<Rightarrow> \<lparr>RxBytes = 0, TxBytes = 0\<rparr> | Some v \<Rightarrow> v)"

subsection \<open>The Docker client and the compiled pattern\<close>

text \<open>
  The client's answers are parameters of the model. An error is its message. The body of
  a stats answer is read by \<^verbatim>\<open>json.Decoder.Decode\<close>, which fills the given struct and
  may return an error; the struct it leaves behind on an error is part of the answer (the
  zero value when nothing was decoded). \<open>Close\<close> is the result of closing the body.
\<close>

type_synonym error = string

record StatsBody =
  Decode :: "StatsResponse \<times> error option"
  Close :: "error option"

record Client =
  ContainerList :: "error + Summary list"
  ContainerInspect :: "string \<Rightarrow> error + InspectResponse"
  ContainerStats :: "string \<Rightarrow> error + StatsBody"

text \<open>
  A compiled \<^verbatim>\<open>regexp.Regexp\<close> is given by what its leftmost match on a text is: nothing,
  or the matched text together with the texts of the capture groups the pattern defines,
  in order (a pattern without groups has the empty list).
  \<^verbatim>\<open>FindStringSubmatch\<close> returns \<^verbatim>\<open>nil\<close> without a match and otherwise the slice made of
  the match followed by the groups.
\<close>

record Regexp =
  exec :: "string \<Rightarrow> (string \<times> string list) option"

definition FindStringSubmatch :: "Regexp \<Rightarrow> string \<Rightarrow> string list" where
  "FindStringSubmatch re s = (case exec re s of None \<Rightarrow> [] | Some (m, gs) \<Rightarrow> m # gs)"

record DockerCollector =
  cli :: Client
  containerRe :: Regexp

subsection \<open>Metrics, the log and the process\<close>

datatype ValueType = CounterValue | GaugeValue

record Metric =
  fqName :: string
  help_text :: string
  variableLabels :: "string list"
  valueType :: ValueType
  val :: float64
  labelValues :: "string list"

definition labelCname :: "string list" where
  "labelCname = [''container_name'']"

text \<open>
  \<^verbatim>\<open>prometheus.MustNewConstMetric(prometheus.NewDesc(name, help, labels, nil), t, v, l)\<close>.
  It panics when the number of label values differs from the number of labels; the
  collector always passes one label and one value.
\<close>

definition MustNewConstMetric :: "string \<Rightarrow> string \<Rightarrow> string list \<Rightarrow> ValueType \<Rightarrow> float64 \<Rightarrow> string \<Rightarrow> Metric" where
  "MustNewConstMetric name hlp labels t v l =
     \<lparr>fqName = name, help_text = hlp, variableLabels = labels, valueType = t, val = v,
      labelValues = [l]\<rparr>"

datatype LogEntry = LogError string error | LogFatal error

datatype Call = ListCall | InspectCall string | StatsCall string

text \<open>
  What a run of the collector does to its surroundings: the metrics sent on the channel
  \<open>ch\<close>, the log, the requests made to the Docker API, and whether the process is still
  running. \<^verbatim>\<open>log.Fatal\<close> writes the entry and calls \<^verbatim>\<open>os.Exit(1)\<close>.
\<close>

record World =
  ch :: "Metric list"
  logged :: "LogEntry list"
  api :: "Call list"
  alive :: bool

definition send :: "Metric \<Rightarrow> World \<Rightarrow> World" where
  "send m w = w\<lparr>ch := ch w @ [m]\<rparr>"

definition log_Error :: "string \<Rightarrow> error \<Rightarrow> World \<Rightarrow> World" where
  "log_Error msg err w = w\<lparr>logged := logged w @ [LogError msg err]\<rparr>"

definition log_Fatal :: "error \<Rightarrow> World \<Rightarrow> World" where
  "log_Fatal err w = w\<lparr>logged := logged w @ [LogFatal err], alive := False\<rparr>"

definition request :: "Call \<Rightarrow> World \<Rightarrow> World" where
  "request c w = w\<lparr>api := api w @ [c]\<rparr>"

section \<open>The collector's operations\<close>

subsection \<open>Metric derivation\<close>

text \<open>
  Each function sends its metrics on the channel, in the order of the source. The local
  variables of \<^verbatim>\<open>CPUMetrics\<close> and \<^verbatim>\<open>memoryMetrics\<close> are definitions of their own, under
  the names the source gives them.
\<close>

definition cpuDelta :: "StatsResponse \<Rightarrow> uint64" where
  "cpuDelta containerStats =
     TotalUsage (CPUUsage (CPUStats containerStats))
       - TotalUsage (CPUUsage (PreCPUStats containerStats))"

definition sysemDelta :: "StatsResponse \<Rightarrow> uint64" where
  "sysemDelta containerStats =
     SystemUsage (CPUStats containerStats) - SystemUsage (PreCPUStats containerStats)"

definition cpuUtilization :: "StatsResponse \<Rightarrow> float64" where
  "cpuUtilization containerStats =
     fmul (fdiv (float64_of_uint64 (cpuDelta containerStats))
                (float64_of_uint64 (sysemDelta containerStats)))
          (Fin 100)"

definition CPUMetrics :: "World \<Rightarrow> StatsResponse \<Rightarrow> string \<Rightarrow> World" where
  "CPUMetrics w containerStats cName =
     (let totalUsage = TotalUsage (CPUUsage (CPUStats containerStats));
          w1 = send (MustNewConstMetric ''dex_cpu_utilization_percent''
                       ''CPU utilization in percent'' labelCname
                       GaugeValue (cpuUtilization containerStats) cName) w
      in send (MustNewConstMetric ''dex_cpu_utilization_seconds_total''
                 ''Cumulative CPU utilization in seconds'' labelCname
                 CounterValue (fdiv (float64_of_uint64 totalUsage) (Fin 1000000000)) cName) w1)"

definition networkMetrics :: "World \<Rightarrow> StatsResponse \<Rightarrow> string \<Rightarrow> World" where
  "networkMetrics w containerStats cName =
     (let w1 = send (MustNewConstMetric ''dex_network_rx_bytes_total''
                       ''Network received bytes total'' labelCname CounterValue
                       (float64_of_uint64 (RxBytes (Networks_at (Networks containerStats) ''eth0'')))
                       cName) w
      in send (MustNewConstMetric ''dex_network_tx_bytes_total''
                 ''Network sent bytes total'' labelCname CounterValue
                 (float64_of_uint64 (TxBytes (Networks_at (Networks containerStats) ''eth0'')))
                 cName) w1)"

definition memoryUsage :: "StatsResponse \<Rightarrow> uint64" where
  "memoryUsage containerStats =
     Usage (MemoryStats containerStats) - Stats_at (Stats (MemoryStats containerStats)) ''cache''"

definition memoryTotal :: "StatsResponse \<Rightarrow> uint64" where
  "memoryTotal containerStats = Limit (MemoryStats containerStats)"

definition memoryUtilization :: "StatsResponse \<Rightarrow> float64" where
  "memoryUtilization containerStats =
     fmul (fdiv (float64_of_uint64 (memoryUsage containerStats))
                (float64_of_uint64 (memoryTotal containerStats)))
          (Fin 100)"

definition memoryMetrics :: "World \<Rightarrow> StatsResponse \<Rightarrow> string \<Rightarrow> World" where
  "memoryMetrics w containerStats cName =
     (let w1 = send (MustNewConstMetric ''dex_memory_usage_bytes''
                       ''Total memory usage bytes'' labelCname CounterValue
                       (float64_of_uint64 (memoryUsage containerStats)) cName) w;
          w2 = send (MustNewConstMetric ''dex_memory_total_bytes''
                       ''Total memory bytes'' labelCname GaugeValue
                       (float64_of_uint64 (memoryTotal containerStats)) cName) w1
      in send (MustNewConstMetric ''dex_memory_utilization_percent''
                 ''Memory utilization percent'' labelCname GaugeValue
                 (memoryUtilization containerStats) cName) w2)"

text \<open>
  The loop of \<^verbatim>\<open>blockIoMetrics\<close> over the service-bytes records, on the pair
  \<open>(readTotal, writeTotal)\<close>. Both totals are \<^verbatim>\<open>uint64\<close> and start at zero.
\<close>

fun blockIoTotals :: "BlkioStatEntry list \<Rightarrow> uint64 \<times> uint64 \<Rightarrow> uint64 \<times> uint64" where
  "blockIoTotals [] (readTotal, writeTotal) = (readTotal, writeTotal)"
| "blockIoTotals (b # bs) (readTotal, writeTotal) =
     blockIoTotals bs
       (if EqualFold (Op b) ''read'' then readTotal + Value b else readTotal,
        if EqualFold (Op b) ''write'' then writeTotal + Value b else writeTotal)"

definition blockIoMetrics :: "World \<Rightarrow> StatsResponse \<Rightarrow> string \<Rightarrow> World" where
  "blockIoMetrics w containerStats cName =
     (case blockIoTotals (IoServiceBytesRecursive (BlkioStats containerStats)) (0, 0) of
        (readTotal, writeTotal) \<Rightarrow>
          (let w1 = send (MustNewConstMetric ''dex_block_io_read_bytes_total''
                            ''Block I/O read bytes'' labelCname CounterValue
                            (float64_of_uint64 readTotal) cName) w
           in send (MustNewConstMetric ''dex_block_io_write_bytes_total''
                      ''Block I/O write bytes'' labelCname CounterValue
                      (float64_of_uint64 writeTotal) cName) w1))"

definition pidsMetrics :: "World \<Rightarrow> StatsResponse \<Rightarrow> string \<Rightarrow> World" where
  "pidsMetrics w containerStats cName =
     send (MustNewConstMetric ''dex_pids_current''
             ''Current number of pids in the cgroup'' labelCname CounterValue
             (float64_of_uint64 (Current (PidsStats containerStats))) cName) w"

subsection \<open>One container\<close>

text \<open>
  \<^verbatim>\<open>processContainer\<close>, statement by statement. A branch that ends in \<^verbatim>\<open>log.Fatal\<close>
  returns the world in which the process has exited; nothing after it runs.
\<close>

definition processContainer :: "DockerCollector \<Rightarrow> Summary \<Rightarrow> World \<Rightarrow> World" where
  "processContainer c cont w =
     (let cName = TrimPrefix (Join (Names cont) '';'') ''/'';
          submatches = FindStringSubmatch (containerRe c) cName
      in if length submatches = 0 then w
         else
           let cName = submatches ! (length submatches - 1);
               isRunning = (if State cont = ''running'' then Fin 1 else Fin 0);
               isRestarting = (if State cont = ''restarting'' then Fin 1 else Fin 0);
               isExited = (if State cont = ''exited'' then Fin 1 else Fin 0);
               w1 = send (MustNewConstMetric ''dex_container_running''
                            ''1 if docker container is running, 0 otherwise'' labelCname
                            GaugeValue isRunning cName) w;
               w2 = send (MustNewConstMetric ''dex_container_restarting''
                            ''1 if docker container is restarting, 0 otherwise'' labelCname
                            GaugeValue isRestarting cName) w1;
               w3 = send (MustNewConstMetric ''dex_container_exited''
                            ''1 if docker container exited, 0 otherwise'' labelCname
                            GaugeValue isExited cName) w2;
               w4 = request (InspectCall (ID cont)) w3
           in case ContainerInspect (cli c) (ID cont) of
                Inl err \<Rightarrow> log_Fatal err w4
              | Inr inspect \<Rightarrow>
                  let w5 = send (MustNewConstMetric ''dex_container_restarts_total''
                                   ''Number of times the container has restarted'' labelCname
                                   CounterValue (float64_of_int (RestartCount inspect)) cName) w4
                  in if isRunning = Fin 1 then
                       (let w6 = request (StatsCall (ID cont)) w5
                        in case ContainerStats (cli c) (ID cont) of
                             Inl err \<Rightarrow> log_Fatal err w6
                           | Inr stats \<Rightarrow>
                               (case Decode stats of
                                  (containerStats, err) \<Rightarrow>
                                    let w7 = (case err of
                                                Some e \<Rightarrow> log_Error ''can't read api stats: '' e w6
                                              | None \<Rightarrow> w6);
                                        w8 = (case Close stats of
                                                Some e \<Rightarrow> log_Error ''can't close body: '' e w7
                                              | None \<Rightarrow> w7);
                                        w9 = blockIoMetrics w8 containerStats cName;
                                        w10 = memoryMetrics w9 containerStats cName;
                                        w11 = networkMetrics w10 containerStats cName;
                                        w12 = CPUMetrics w11 containerStats cName
                                    in pidsMetrics w12 containerStats cName))
                     else w5)"

subsection \<open>One cycle\<close>

text \<open>
  \<^verbatim>\<open>Collect\<close> lists the containers; on an error it logs and returns. Otherwise it starts
  one goroutine for each container and waits for all of them. The goroutines are modelled
  in the schedule in which they run one after the other, in the order of the list; a
  goroutine that ends in \<^verbatim>\<open>log.Fatal\<close> ends the process, and the remaining ones do not
  run.
\<close>

fun runUnits :: "DockerCollector \<Rightarrow> Summary list \<Rightarrow> World \<Rightarrow> World" where
  "runUnits c [] w = w"
| "runUnits c (cont # conts) w =
     (if alive w then runUnits c conts (processContainer c cont w) else w)"

definition Collect_cycle :: "DockerCollector \<Rightarrow> World \<Rightarrow> World" where
  "Collect_cycle c w =
     (let w1 = request ListCall w
      in case ContainerList (cli c) of
           Inl err \<Rightarrow> log_Error ''can't list containers: '' err w1
         | Inr containers \<Rightarrow> runUnits c containers w1)"

section \<open>Concrete inputs\<close>

text \<open>The zero value of \<^verbatim>\<open>container.StatsResponse\<close>: what \<^verbatim>\<open>var containerStats\<close> holds
  before anything is decoded into it.\<close>

definition zeroStats :: StatsResponse where
  "zeroStats =
     \<lparr>CPUStats = \<lparr>CPUUsage = \<lparr>TotalUsage = 0\<rparr>, SystemUsage = 0\<rparr>,
      PreCPUStats = \<lparr>CPUUsage = \<lparr>TotalUsage = 0\<rparr>, SystemUsage = 0\<rparr>,
      MemoryStats = \<lparr>Usage = 0, Stats = Map.empty, Limit = 0\<rparr>,
      Networks = Map.empty,
      BlkioStats = \<lparr>IoServiceBytesRecursive = []\<rparr>,
      PidsStats = \<lparr>Current = 0\<rparr>\<rparr>"

text \<open>The snapshot of the specification's scenario A.\<close>

definition scenarioA :: StatsResponse where
  "scenarioA =
     \<lparr>CPUStats = \<lparr>CPUUsage = \<lparr>TotalUsage = 500000000\<rparr>, SystemUsage = 10000000000\<rparr>,
      PreCPUStats = \<lparr>CPUUsage = \<lparr>TotalUsage = 400000000\<rparr>, SystemUsage = 9000000000\<rparr>,
      MemoryStats = \<lparr>Usage = 125829120, Stats = [''cache'' \<mapsto> 20971520], Limit = 209715200\<rparr>,
      Networks = [''eth0'' \<mapsto> \<lparr>RxBytes = 1000, TxBytes = 2000\<rparr>],
      BlkioStats = \<lparr>IoServiceBytesRecursive =
        [\<lparr>Op = ''read'', Value = 100\<rparr>, \<lparr>Op = ''write'', Value = 50\<rparr>,
         \<lparr>Op = ''read'', Value = 25\<rparr>]\<rparr>,
      PidsStats = \<lparr>Current = 7\<rparr>\<rparr>"

text \<open>A snapshot with the system counters equal, no memory limit, and work done.\<close>

definition stalledStats :: StatsResponse where
  "stalledStats =
     \<lparr>CPUStats = \<lparr>CPUUsage = \<lparr>TotalUsage = 500\<rparr>, SystemUsage = 9000\<rparr>,
      PreCPUStats = \<lparr>CPUUsage = \<lparr>TotalUsage = 400\<rparr>, SystemUsage = 9000\<rparr>,
      MemoryStats = \<lparr>Usage = 4096, Stats = Map.empty, Limit = 0\<rparr>,
      Networks = Map.empty,
      BlkioStats = \<lparr>IoServiceBytesRecursive = []\<rparr>,
      PidsStats = \<lparr>Current = 1\<rparr>\<rparr>"

text \<open>A snapshot in which every previous counter is above the current one, and the
  page cache above the raw usage.\<close>

definition regressedStats :: StatsResponse where
  "regressedStats =
     \<lparr>CPUStats = \<lparr>CPUUsage = \<lparr>TotalUsage = 3\<rparr>, SystemUsage = 10\<rparr>,
      PreCPUStats = \<lparr>CPUUsage = \<lparr>TotalUsage = 5\<rparr>, SystemUsage = 20\<rparr>,
      MemoryStats = \<lparr>Usage = 100, Stats = [''cache'' \<mapsto> 300], Limit = 1000\<rparr>,
      Networks = Map.empty,
      BlkioStats = \<lparr>IoServiceBytesRecursive = []\<rparr>,
      PidsStats = \<lparr>Current = 1\<rparr>\<rparr>"

definition web1 :: "string \<Rightarrow> Summary" where
  "web1 st = \<lparr>ID = ''c1'', Names = [''/web-1''], State = st\<rparr>"

text \<open>
  Three compiled patterns, by their matches: one without groups that matches the whole of
  any name (the default \<^verbatim>\<open>.*\<close> on a name without line break), \<^verbatim>\<open>^web-\<close> of scenario B,
  and \<^verbatim>\<open>^(web)-(.*)$\<close>, with two groups (on names without line break); and \<^verbatim>\<open>^db-\<close> of
  scenario C.
\<close>

definition re_any :: Regexp where
  "re_any = \<lparr>exec = (\<lambda>s. Some (s, []))\<rparr>"

definition re_web :: Regexp where
  "re_web = \<lparr>exec = (\<lambda>s. if take 4 s = ''web-'' then Some (''web-'', []) else None)\<rparr>"

definition re_web_groups :: Regexp where
  "re_web_groups =
     \<lparr>exec = (\<lambda>s. if take 4 s = ''web-'' then Some (s, [''web'', drop 4 s]) else None)\<rparr>"

definition re_db :: Regexp where
  "re_db = \<lparr>exec = (\<lambda>s. if take 3 s = ''db-'' then Some (''db-'', []) else None)\<rparr>"

text \<open>A collector whose client answers every inspect and stats request the same way.\<close>

definition collector ::
  "Regexp \<Rightarrow> error + Summary list \<Rightarrow> error + InspectResponse \<Rightarrow> error + StatsBody \<Rightarrow> DockerCollector"
where
  "collector re lst ins sts =
     \<lparr>cli = \<lparr>ContainerList = lst, ContainerInspect = (\<lambda>i. ins), ContainerStats = (\<lambda>i. sts)\<rparr>,
      containerRe = re\<rparr>"

definition world0 :: World where
  "world0 = \<lparr>ch = [], logged = [], api = [], alive = True\<rparr>"


section \<open>Properties\<close>

subsection \<open>Auxiliary facts\<close>

lemma unat_real_pos: "x \<noteq> 0 \<Longrightarrow> 0 < real (unat (x :: uint64))"
  by (simp del: of_nat_unat add: unat_gt_0)

lemma float_div_zero:
  "fdiv (float64_of_uint64 x) (float64_of_uint64 0) = (if x = 0 then NaN else PosInf)"
  using unat_real_pos [of x]
  by (cases "x = 0") (simp_all del: of_nat_unat add: float64_of_uint64_def)

lemma float_div_nonzero:
  "y \<noteq> 0 \<Longrightarrow>
   fdiv (float64_of_uint64 x) (float64_of_uint64 y) = Fin (real (unat x) / real (unat y))"
  using unat_real_pos [of y] by (simp del: of_nat_unat add: float64_of_uint64_def)

lemma unat_sub_wraps:
  "unat a < unat b \<Longrightarrow> real (unat (a - b :: uint64)) = 2 ^ 64 + real (unat a) - real (unat b)"
proof -
  assume lt: "unat a < unat b"
  have "unat (a - b) = unat a + 2 ^ 64 - unat b"
    using lt by (simp add: unat_sub_if_size word_size)
  moreover have "unat b \<le> unat a + 2 ^ 64"
    using unsigned_less [of b, where 'a = nat] by simp
  ultimately show ?thesis
    by (simp del: of_nat_unat)
qed

lemma CPUMetrics_world:
  "CPUMetrics w s n = w\<lparr>ch := ch w @
     [MustNewConstMetric ''dex_cpu_utilization_percent'' ''CPU utilization in percent''
        labelCname GaugeValue (cpuUtilization s) n,
      MustNewConstMetric ''dex_cpu_utilization_seconds_total''
        ''Cumulative CPU utilization in seconds'' labelCname CounterValue
        (fdiv (float64_of_uint64 (TotalUsage (CPUUsage (CPUStats s)))) (Fin 1000000000)) n]\<rparr>"
  by (simp add: CPUMetrics_def send_def)

lemma memoryMetrics_world:
  "memoryMetrics w s n = w\<lparr>ch := ch w @
     [MustNewConstMetric ''dex_memory_usage_bytes'' ''Total memory usage bytes''
        labelCname CounterValue (float64_of_uint64 (memoryUsage s)) n,
      MustNewConstMetric ''dex_memory_total_bytes'' ''Total memory bytes''
        labelCname GaugeValue (float64_of_uint64 (memoryTotal s)) n,
      MustNewConstMetric ''dex_memory_utilization_percent'' ''Memory utilization percent''
        labelCname GaugeValue (memoryUtilization s) n]\<rparr>"
  by (simp add: memoryMetrics_def send_def)

lemma networkMetrics_world:
  "networkMetrics w s n = w\<lparr>ch := ch w @
     [MustNewConstMetric ''dex_network_rx_bytes_total'' ''Network received bytes total''
        labelCname CounterValue
        (float64_of_uint64 (RxBytes (Networks_at (Networks s) ''eth0''))) n,
      MustNewConstMetric ''dex_network_tx_bytes_total'' ''Network sent bytes total''
        labelCname CounterValue
        (float64_of_uint64 (TxBytes (Networks_at (Networks s) ''eth0''))) n]\<rparr>"
  by (simp add: networkMetrics_def send_def)

lemma blockIoMetrics_world:
  "blockIoMetrics w s n = w\<lparr>ch := ch w @
     [MustNewConstMetric ''dex_block_io_read_bytes_total'' ''Block I/O read bytes''
        labelCname CounterValue
        (float64_of_uint64 (fst (blockIoTotals (IoServiceBytesRecursive (BlkioStats s)) (0, 0)))) n,
      MustNewConstMetric ''dex_block_io_write_bytes_total'' ''Block I/O write bytes''
        labelCname CounterValue
        (float64_of_uint64 (snd (blockIoTotals (IoServiceBytesRecursive (BlkioStats s)) (0, 0)))) n]\<rparr>"
  by (simp add: blockIoMetrics_def send_def split: prod.split)

lemma pidsMetrics_world:
  "pidsMetrics w s n = w\<lparr>ch := ch w @
     [MustNewConstMetric ''dex_pids_current'' ''Current number of pids in the cgroup''
        labelCname CounterValue (float64_of_uint64 (Current (PidsStats s))) n]\<rparr>"
  by (simp add: pidsMetrics_def send_def)

lemma submatches_last:
  "exec re s = Some (m, gs) \<Longrightarrow>
   FindStringSubmatch re s ! (length (FindStringSubmatch re s) - 1) = last (m # gs)"
  by (simp add: FindStringSubmatch_def last_conv_nth)

lemma processContainer_no_match:
  "exec (containerRe c) (TrimPrefix (Join (Names cont) '';'') ''/'') = None \<Longrightarrow>
   processContainer c cont w = w"
  by (simp add: processContainer_def FindStringSubmatch_def)

lemma processContainer_inspect_error:
  assumes "exec (containerRe c) (TrimPrefix (Join (Names cont) '';'') ''/'') = Some (m, gs)"
    and "ContainerInspect (cli c) (ID cont) = Inl err"
  shows "processContainer c cont w =
    w\<lparr>ch := ch w @
       [MustNewConstMetric ''dex_container_running''
          ''1 if docker container is running, 0 otherwise'' labelCname GaugeValue
          (if State cont = ''running'' then Fin 1 else Fin 0) (last (m # gs)),
        MustNewConstMetric ''dex_container_restarting''
          ''1 if docker container is restarting, 0 otherwise'' labelCname GaugeValue
          (if State cont = ''restarting'' then Fin 1 else Fin 0) (last (m # gs)),
        MustNewConstMetric ''dex_container_exited''
          ''1 if docker container exited, 0 otherwise'' labelCname GaugeValue
          (if State cont = ''exited'' then Fin 1 else Fin 0) (last (m # gs))],
      logged := logged w @ [LogFatal err],
      api := api w @ [InspectCall (ID cont)],
      alive := False\<rparr>"
  using assms submatches_last [OF assms(1)]
  by (simp add: processContainer_def Let_def send_def request_def log_Fatal_def
      FindStringSubmatch_def)


lemma blockIoTotals_sums:
  "blockIoTotals xs (r, w) =
     (r + sum_list (map Value (filter (\<lambda>b. EqualFold (Op b) ''read'') xs)),
      w + sum_list (map Value (filter (\<lambda>b. EqualFold (Op b) ''write'') xs)))"
  by (induction xs arbitrary: r w) (simp_all add: add.assoc)

lemma sum_list_filter_mset:
  "mset xs = mset ys \<Longrightarrow>
   sum_list (map Value (filter P xs)) = (sum_list (map Value (filter P ys)) :: uint64)"
proof -
  assume eq: "mset xs = mset ys"
  have "sum_mset (image_mset Value (filter_mset P (mset xs)))
      = sum_mset (image_mset Value (filter_mset P (mset ys)))"
    using eq by simp
  then show ?thesis
    by (simp only: mset_filter [symmetric] mset_map [symmetric] sum_mset_sum_list)
qed

lemma EqualFold_read: "EqualFold s ''read'' \<longleftrightarrow> map toLower s = ''read''"
  by (simp add: EqualFold_def toLower_def)

lemma EqualFold_write: "EqualFold s ''write'' \<longleftrightarrow> map toLower s = ''write''"
  by (simp add: EqualFold_def toLower_def)

subsection \<open>Derived percentages\<close>

text \<open>
  C3 (as amended). A zero denominator causes no fault, and the percentage is still sent,
  but its value is not 0: when \<open>sysemDelta\<close> is zero, \<^verbatim>\<open>dex_cpu_utilization_percent\<close> is
  NaN if \<open>cpuDelta\<close> is zero too and +Inf otherwise; when the memory limit is zero,
  \<^verbatim>\<open>dex_memory_utilization_percent\<close> is NaN if the usage is zero too and +Inf otherwise.
  The source has no guard on either division.
\<close>

theorem zero_denominator_gives_nan_or_inf:
  "(sysemDelta s = 0 \<longrightarrow>
      ch (CPUMetrics w s n) = ch w @
        [MustNewConstMetric ''dex_cpu_utilization_percent'' ''CPU utilization in percent''
           labelCname GaugeValue (if cpuDelta s = 0 then NaN else PosInf) n,
         MustNewConstMetric ''dex_cpu_utilization_seconds_total''
           ''Cumulative CPU utilization in seconds'' labelCname CounterValue
           (Fin (real (unat (TotalUsage (CPUUsage (CPUStats s)))) / 1000000000)) n])
   \<and> (Limit (MemoryStats s) = 0 \<longrightarrow>
      ch (memoryMetrics w s n) = ch w @
        [MustNewConstMetric ''dex_memory_usage_bytes'' ''Total memory usage bytes''
           labelCname CounterValue (Fin (real (unat (memoryUsage s)))) n,
         MustNewConstMetric ''dex_memory_total_bytes'' ''Total memory bytes''
           labelCname GaugeValue (Fin 0) n,
         MustNewConstMetric ''dex_memory_utilization_percent'' ''Memory utilization percent''
           labelCname GaugeValue (if memoryUsage s = 0 then NaN else PosInf) n])"
proof (intro conjI impI)
  assume "sysemDelta s = 0"
  then have "cpuUtilization s = (if cpuDelta s = 0 then NaN else PosInf)"
    by (simp add: cpuUtilization_def float_div_zero)
  then show "ch (CPUMetrics w s n) = ch w @
        [MustNewConstMetric ''dex_cpu_utilization_percent'' ''CPU utilization in percent''
           labelCname GaugeValue (if cpuDelta s = 0 then NaN else PosInf) n,
         MustNewConstMetric ''dex_cpu_utilization_seconds_total''
           ''Cumulative CPU utilization in seconds'' labelCname CounterValue
           (Fin (real (unat (TotalUsage (CPUUsage (CPUStats s)))) / 1000000000)) n]"
    by (simp add: CPUMetrics_world float64_of_uint64_def)
next
  assume "Limit (MemoryStats s) = 0"
  then have "memoryTotal s = 0"
    by (simp add: memoryTotal_def)
  then have "memoryUtilization s = (if memoryUsage s = 0 then NaN else PosInf)"
    by (simp add: memoryUtilization_def float_div_zero)
  moreover have "float64_of_uint64 (memoryTotal s) = Fin 0"
    using \<open>memoryTotal s = 0\<close> by (simp add: float64_of_uint64_def)
  ultimately show "ch (memoryMetrics w s n) = ch w @
        [MustNewConstMetric ''dex_memory_usage_bytes'' ''Total memory usage bytes''
           labelCname CounterValue (Fin (real (unat (memoryUsage s)))) n,
         MustNewConstMetric ''dex_memory_total_bytes'' ''Total memory bytes''
           labelCname GaugeValue (Fin 0) n,
         MustNewConstMetric ''dex_memory_utilization_percent'' ''Memory utilization percent''
           labelCname GaugeValue (if memoryUsage s = 0 then NaN else PosInf) n]"
    by (simp add: memoryMetrics_world float64_of_uint64_def)
qed

theorem zero_denominator_gives_nan_or_inf_witness:
  "sysemDelta stalledStats = 0 \<and> Limit (MemoryStats stalledStats) = 0
   \<and> map val (ch (CPUMetrics world0 stalledStats ''web-1'')) = [PosInf, Fin (5 / 10000000)]
   \<and> map val (ch (memoryMetrics world0 stalledStats ''web-1'')) = [Fin 4096, Fin 0, PosInf]"
proof -
  have d: "sysemDelta stalledStats = 0" "Limit (MemoryStats stalledStats) = 0"
    "cpuDelta stalledStats = 100" "memoryUsage stalledStats = 4096"
    "TotalUsage (CPUUsage (CPUStats stalledStats)) = 500"
    by (simp_all add: sysemDelta_def cpuDelta_def memoryUsage_def Stats_at_def stalledStats_def)
  show ?thesis
    using zero_denominator_gives_nan_or_inf [of stalledStats world0 "''web-1''"] d
    by (simp add: world0_def MustNewConstMetric_def)
qed

theorem zero_denominator_counterexample:
  "sysemDelta zeroStats = 0 \<and> Limit (MemoryStats zeroStats) = 0
   \<and> map val (ch (CPUMetrics world0 zeroStats ''web-1'')) = [NaN, Fin 0]
   \<and> map val (ch (memoryMetrics world0 zeroStats ''web-1'')) = [Fin 0, Fin 0, NaN]
   \<and> NaN \<noteq> Fin 0"
  by (simp add: CPUMetrics_world memoryMetrics_world cpuUtilization_def memoryUtilization_def
      sysemDelta_def cpuDelta_def memoryUsage_def memoryTotal_def Stats_at_def
      float64_of_uint64_def zeroStats_def world0_def MustNewConstMetric_def)


text \<open>
  C5. The memory metrics are: usage = raw usage minus the value under the key
  \<^verbatim>\<open>"cache"\<close> of the stat mapping, a missing key counting as zero (the subtraction is that
  of \<^verbatim>\<open>uint64\<close>); total = the limit; and, for a nonzero limit, utilization =
  100 * usage / total. Usage is sent as a counter, total and utilization as gauges.
\<close>

theorem memory_metrics_formula:
  "memoryUsage s =
     Usage (MemoryStats s)
       - (case Stats (MemoryStats s) ''cache'' of None \<Rightarrow> 0 | Some cache \<Rightarrow> cache)
   \<and> ch (memoryMetrics w s n) = ch w @
        [MustNewConstMetric ''dex_memory_usage_bytes'' ''Total memory usage bytes''
           labelCname CounterValue (Fin (real (unat (memoryUsage s)))) n,
         MustNewConstMetric ''dex_memory_total_bytes'' ''Total memory bytes''
           labelCname GaugeValue (Fin (real (unat (Limit (MemoryStats s))))) n,
         MustNewConstMetric ''dex_memory_utilization_percent'' ''Memory utilization percent''
           labelCname GaugeValue (memoryUtilization s) n]
   \<and> (Limit (MemoryStats s) \<noteq> 0 \<longrightarrow>
        memoryUtilization s =
          Fin (100 * real (unat (memoryUsage s)) / real (unat (Limit (MemoryStats s)))))"
proof (intro conjI impI)
  show "memoryUsage s =
     Usage (MemoryStats s)
       - (case Stats (MemoryStats s) ''cache'' of None \<Rightarrow> 0 | Some cache \<Rightarrow> cache)"
    by (simp add: memoryUsage_def Stats_at_def)
next
  show "ch (memoryMetrics w s n) = ch w @
        [MustNewConstMetric ''dex_memory_usage_bytes'' ''Total memory usage bytes''
           labelCname CounterValue (Fin (real (unat (memoryUsage s)))) n,
         MustNewConstMetric ''dex_memory_total_bytes'' ''Total memory bytes''
           labelCname GaugeValue (Fin (real (unat (Limit (MemoryStats s))))) n,
         MustNewConstMetric ''dex_memory_utilization_percent'' ''Memory utilization percent''
           labelCname GaugeValue (memoryUtilization s) n]"
    by (simp add: memoryMetrics_world float64_of_uint64_def memoryTotal_def)
next
  assume "Limit (MemoryStats s) \<noteq> 0"
  then have "memoryTotal s \<noteq> 0"
    by (simp add: memoryTotal_def)
  then have "memoryUtilization s =
      Fin (100 * real (unat (memoryUsage s)) / real (unat (memoryTotal s)))"
    by (simp add: memoryUtilization_def float_div_nonzero)
  then show "memoryUtilization s =
      Fin (100 * real (unat (memoryUsage s)) / real (unat (Limit (MemoryStats s))))"
    by (simp add: memoryTotal_def)
qed

theorem memory_metrics_formula_witness:
  "Limit (MemoryStats scenarioA) \<noteq> 0
   \<and> memoryUsage scenarioA = 104857600
   \<and> memoryUsage zeroStats = Usage (MemoryStats zeroStats)
   \<and> map (\<lambda>x. (fqName x, valueType x, val x)) (ch (memoryMetrics world0 scenarioA ''web-1'')) =
        [(''dex_memory_usage_bytes'', CounterValue, Fin 104857600),
         (''dex_memory_total_bytes'', GaugeValue, Fin 209715200),
         (''dex_memory_utilization_percent'', GaugeValue, Fin 50)]"
proof -
  have l: "Limit (MemoryStats scenarioA) \<noteq> 0" "Limit (MemoryStats scenarioA) = 209715200"
    "Usage (MemoryStats scenarioA) = 125829120"
    "Stats (MemoryStats scenarioA) ''cache'' = Some 20971520"
    "Stats (MemoryStats zeroStats) ''cache'' = None"
    by (simp_all add: scenarioA_def zeroStats_def)
  show ?thesis
    using memory_metrics_formula [of scenarioA world0 "''web-1''"]
      memory_metrics_formula [of zeroStats world0 "''web-1''"] l
    by (simp add: world0_def MustNewConstMetric_def)
qed


lemma unat_real_bound: "real (unat (x :: uint64)) < 2 ^ 64"
proof -
  have "unat x < 2 ^ 64"
    using unsigned_less [of x, where 'a = nat] by simp
  then have "real (unat x) < real (2 ^ 64)"
    by (simp only: of_nat_less_iff)
  then show ?thesis
    by (simp del: of_nat_unat)
qed

subsection \<open>CPU\<close>

text \<open>
  C4. For a snapshot \<open>s\<close> whose \<open>sysemDelta\<close> is not zero, \<^verbatim>\<open>CPUMetrics\<close> sends the gauge
  100 * (current total usage - previous total usage) / (current system usage - previous
  system usage), the differences being those of \<^verbatim>\<open>uint64\<close>, and the counter current
  total usage / 1e9; and a running container, matched by the pattern, whose inspect and
  stats requests succeed and whose body decodes to \<open>s\<close> sends exactly these two metrics
  with a name starting with \<^verbatim>\<open>dex_cpu\<close>.
\<close>

theorem cpu_metrics_formula:
  assumes "sysemDelta s \<noteq> 0"
  shows "ch (CPUMetrics w s n) = ch w @
      [MustNewConstMetric ''dex_cpu_utilization_percent'' ''CPU utilization in percent''
         labelCname GaugeValue
         (Fin (100 * real (unat (TotalUsage (CPUUsage (CPUStats s))
                                  - TotalUsage (CPUUsage (PreCPUStats s))))
                 / real (unat (SystemUsage (CPUStats s) - SystemUsage (PreCPUStats s))))) n,
       MustNewConstMetric ''dex_cpu_utilization_seconds_total''
         ''Cumulative CPU utilization in seconds'' labelCname CounterValue
         (Fin (real (unat (TotalUsage (CPUUsage (CPUStats s)))) / 1000000000)) n]
    \<and> (State cont = ''running''
        \<and> exec (containerRe c) (TrimPrefix (Join (Names cont) '';'') ''/'') = Some (m, gs)
        \<and> ContainerInspect (cli c) (ID cont) = Inr insp
        \<and> ContainerStats (cli c) (ID cont) = Inr body
        \<and> fst (Decode body) = s
      \<longrightarrow> filter (\<lambda>x. take 7 (fqName x) = ''dex_cpu'') (ch (processContainer c cont world0)) =
        [MustNewConstMetric ''dex_cpu_utilization_percent'' ''CPU utilization in percent''
           labelCname GaugeValue
           (Fin (100 * real (unat (TotalUsage (CPUUsage (CPUStats s))
                                    - TotalUsage (CPUUsage (PreCPUStats s))))
                   / real (unat (SystemUsage (CPUStats s) - SystemUsage (PreCPUStats s)))))
           (last (m # gs)),
         MustNewConstMetric ''dex_cpu_utilization_seconds_total''
           ''Cumulative CPU utilization in seconds'' labelCname CounterValue
           (Fin (real (unat (TotalUsage (CPUUsage (CPUStats s)))) / 1000000000))
           (last (m # gs))])"
proof (intro conjI impI)
  have u: "cpuUtilization s =
      Fin (100 * real (unat (TotalUsage (CPUUsage (CPUStats s))
                               - TotalUsage (CPUUsage (PreCPUStats s))))
              / real (unat (SystemUsage (CPUStats s) - SystemUsage (PreCPUStats s))))"
    using assms float_div_nonzero [of "sysemDelta s" "cpuDelta s"]
    by (simp add: cpuUtilization_def) (simp add: cpuDelta_def sysemDelta_def)
  have k: "fdiv (float64_of_uint64 (TotalUsage (CPUUsage (CPUStats s)))) (Fin 1000000000) =
      Fin (real (unat (TotalUsage (CPUUsage (CPUStats s)))) / 1000000000)"
    by (simp add: float64_of_uint64_def)
  show "ch (CPUMetrics w s n) = ch w @
      [MustNewConstMetric ''dex_cpu_utilization_percent'' ''CPU utilization in percent''
         labelCname GaugeValue
         (Fin (100 * real (unat (TotalUsage (CPUUsage (CPUStats s))
                                  - TotalUsage (CPUUsage (PreCPUStats s))))
                 / real (unat (SystemUsage (CPUStats s) - SystemUsage (PreCPUStats s))))) n,
       MustNewConstMetric ''dex_cpu_utilization_seconds_total''
         ''Cumulative CPU utilization in seconds'' labelCname CounterValue
         (Fin (real (unat (TotalUsage (CPUUsage (CPUStats s)))) / 1000000000)) n]"
    by (simp only: CPUMetrics_world u k) simp
  assume run: "State cont = ''running''
        \<and> exec (containerRe c) (TrimPrefix (Join (Names cont) '';'') ''/'') = Some (m, gs)
        \<and> ContainerInspect (cli c) (ID cont) = Inr insp
        \<and> ContainerStats (cli c) (ID cont) = Inr body
        \<and> fst (Decode body) = s"
  then obtain err where d: "Decode body = (s, err)"
    by (cases "Decode body") auto
  have l: "FindStringSubmatch (containerRe c) (TrimPrefix (Join (Names cont) '';'') ''/'')
      ! (length (FindStringSubmatch (containerRe c) (TrimPrefix (Join (Names cont) '';'') ''/'')) - 1)
      = last (m # gs)"
    using run by (intro submatches_last) simp
  have l': "FindStringSubmatch (containerRe c) (TrimPrefix (Join (Names cont) '';'') ''/'')
      ! (length (FindStringSubmatch (containerRe c) (TrimPrefix (Join (Names cont) '';'') ''/'')) - Suc 0)
      = last (m # gs)"
    using l by simp
  have ne: "FindStringSubmatch (containerRe c) (TrimPrefix (Join (Names cont) '';'') ''/'') \<noteq> []"
    using run by (simp add: FindStringSubmatch_def)
  show "filter (\<lambda>x. take 7 (fqName x) = ''dex_cpu'') (ch (processContainer c cont world0)) =
        [MustNewConstMetric ''dex_cpu_utilization_percent'' ''CPU utilization in percent''
           labelCname GaugeValue
           (Fin (100 * real (unat (TotalUsage (CPUUsage (CPUStats s))
                                    - TotalUsage (CPUUsage (PreCPUStats s))))
                   / real (unat (SystemUsage (CPUStats s) - SystemUsage (PreCPUStats s)))))
           (last (m # gs)),
         MustNewConstMetric ''dex_cpu_utilization_seconds_total''
           ''Cumulative CPU utilization in seconds'' labelCname CounterValue
           (Fin (real (unat (TotalUsage (CPUUsage (CPUStats s)))) / 1000000000))
           (last (m # gs))]"
    using run d ne
    by (simp add: processContainer_def Let_def l l' u k CPUMetrics_world memoryMetrics_world
        networkMetrics_world blockIoMetrics_world pidsMetrics_world send_def request_def
        log_Error_def world0_def MustNewConstMetric_def split: option.split)
qed


theorem cpu_metrics_formula_witness:
  "sysemDelta scenarioA \<noteq> 0
   \<and> map (\<lambda>x. (fqName x, valueType x, val x, labelValues x))
        (filter (\<lambda>x. take 7 (fqName x) = ''dex_cpu'')
          (ch (processContainer
                 (collector re_any (Inr [web1 ''running'']) (Inr \<lparr>RestartCount = 2\<rparr>)
                    (Inr \<lparr>Decode = (scenarioA, None), Close = None\<rparr>))
                 (web1 ''running'') world0))) =
       [(''dex_cpu_utilization_percent'', GaugeValue, Fin 10, [''web-1'']),
        (''dex_cpu_utilization_seconds_total'', CounterValue, Fin (1 / 2), [''web-1''])]
   \<and> map val (ch (CPUMetrics world0 scenarioA ''web-1'')) = [Fin 10, Fin (1 / 2)]"
proof -
  have nz: "sysemDelta scenarioA \<noteq> 0"
    by (simp add: sysemDelta_def scenarioA_def)
  have f: "TotalUsage (CPUUsage (CPUStats scenarioA)) = 500000000"
    "TotalUsage (CPUUsage (PreCPUStats scenarioA)) = 400000000"
    "SystemUsage (CPUStats scenarioA) = 10000000000"
    "SystemUsage (PreCPUStats scenarioA) = 9000000000"
    by (simp_all add: scenarioA_def)
  have h: "State (web1 ''running'') = ''running''"
    "exec re_any (TrimPrefix (Join (Names (web1 ''running'')) '';'') ''/'') = Some (''web-1'', [])"
    by (simp_all add: web1_def re_any_def TrimPrefix_def)
  show ?thesis
    using nz h
      cpu_metrics_formula [OF nz, where w = world0 and n = "''web-1''"
        and cont = "web1 ''running''" and m = "''web-1''" and gs = "[]"
        and insp = "\<lparr>RestartCount = 2\<rparr>"
        and body = "\<lparr>Decode = (scenarioA, None), Close = None\<rparr>"
        and c = "collector re_any (Inr [web1 ''running'']) (Inr \<lparr>RestartCount = 2\<rparr>)
                    (Inr \<lparr>Decode = (scenarioA, None), Close = None\<rparr>)"]
    by (simp add: f collector_def MustNewConstMetric_def world0_def)
qed

text \<open>
  C10. The differences are taken in \<^verbatim>\<open>uint64\<close> before the conversion to \<^verbatim>\<open>float64\<close>:
  when the previous total usage is above the current one, the CPU gauge is computed from
  2^64 + current - previous, a positive number; when the previous system usage is above
  the current one, the divisor is 2^64 + current - previous; and when the cache is above
  the raw usage, the usage metric is 2^64 + usage - cache. The metrics are sent as usual.
\<close>

theorem unsigned_differences_wrap:
  "(unat (TotalUsage (CPUUsage (CPUStats s))) < unat (TotalUsage (CPUUsage (PreCPUStats s)))
      \<and> sysemDelta s \<noteq> 0 \<longrightarrow>
      map val (ch (CPUMetrics world0 s n)) =
        [Fin (100 * (2 ^ 64 + real (unat (TotalUsage (CPUUsage (CPUStats s))))
                       - real (unat (TotalUsage (CPUUsage (PreCPUStats s)))))
                / real (unat (sysemDelta s))),
         Fin (real (unat (TotalUsage (CPUUsage (CPUStats s)))) / 1000000000)]
      \<and> 0 < 2 ^ 64 + real (unat (TotalUsage (CPUUsage (CPUStats s))))
                - real (unat (TotalUsage (CPUUsage (PreCPUStats s)))))
   \<and> (unat (SystemUsage (CPUStats s)) < unat (SystemUsage (PreCPUStats s)) \<longrightarrow>
      real (unat (sysemDelta s)) =
        2 ^ 64 + real (unat (SystemUsage (CPUStats s))) - real (unat (SystemUsage (PreCPUStats s)))
      \<and> sysemDelta s \<noteq> 0)
   \<and> (unat (Usage (MemoryStats s)) < unat (Stats_at (Stats (MemoryStats s)) ''cache'') \<longrightarrow>
      map val (ch (memoryMetrics world0 s n)) =
        [Fin (2 ^ 64 + real (unat (Usage (MemoryStats s)))
                - real (unat (Stats_at (Stats (MemoryStats s)) ''cache''))),
         Fin (real (unat (Limit (MemoryStats s)))),
         memoryUtilization s]
      \<and> 0 < 2 ^ 64 + real (unat (Usage (MemoryStats s)))
                - real (unat (Stats_at (Stats (MemoryStats s)) ''cache'')))"
proof (intro conjI impI)
  assume a: "unat (TotalUsage (CPUUsage (CPUStats s))) < unat (TotalUsage (CPUUsage (PreCPUStats s)))
      \<and> sysemDelta s \<noteq> 0"
  then have d: "real (unat (cpuDelta s)) =
      2 ^ 64 + real (unat (TotalUsage (CPUUsage (CPUStats s))))
        - real (unat (TotalUsage (CPUUsage (PreCPUStats s))))"
    unfolding cpuDelta_def by (intro unat_sub_wraps) simp
  have "cpuUtilization s = Fin (100 * real (unat (cpuDelta s)) / real (unat (sysemDelta s)))"
    using a by (simp add: cpuUtilization_def float_div_nonzero)
  then show "map val (ch (CPUMetrics world0 s n)) =
        [Fin (100 * (2 ^ 64 + real (unat (TotalUsage (CPUUsage (CPUStats s))))
                       - real (unat (TotalUsage (CPUUsage (PreCPUStats s)))))
                / real (unat (sysemDelta s))),
         Fin (real (unat (TotalUsage (CPUUsage (CPUStats s)))) / 1000000000)]"
    by (simp only: d [symmetric])
      (simp add: CPUMetrics_world world0_def MustNewConstMetric_def float64_of_uint64_def)
next
  assume "unat (TotalUsage (CPUUsage (CPUStats s))) < unat (TotalUsage (CPUUsage (PreCPUStats s)))
      \<and> sysemDelta s \<noteq> 0"
  have "real (unat (TotalUsage (CPUUsage (PreCPUStats s)))) < 2 ^ 64"
    by (rule unat_real_bound)
  then show "0 < 2 ^ 64 + real (unat (TotalUsage (CPUUsage (CPUStats s))))
                - real (unat (TotalUsage (CPUUsage (PreCPUStats s))))"
    by (simp del: of_nat_unat add: add_pos_nonneg)
next
  assume a: "unat (SystemUsage (CPUStats s)) < unat (SystemUsage (PreCPUStats s))"
  then show "real (unat (sysemDelta s)) =
        2 ^ 64 + real (unat (SystemUsage (CPUStats s))) - real (unat (SystemUsage (PreCPUStats s)))"
    unfolding sysemDelta_def by (intro unat_sub_wraps)
  show "sysemDelta s \<noteq> 0"
    using a by (auto simp: sysemDelta_def)
next
  assume a: "unat (Usage (MemoryStats s)) < unat (Stats_at (Stats (MemoryStats s)) ''cache'')"
  then have d: "real (unat (memoryUsage s)) =
      2 ^ 64 + real (unat (Usage (MemoryStats s)))
        - real (unat (Stats_at (Stats (MemoryStats s)) ''cache''))"
    unfolding memoryUsage_def by (intro unat_sub_wraps)
  show "map val (ch (memoryMetrics world0 s n)) =
        [Fin (2 ^ 64 + real (unat (Usage (MemoryStats s)))
                - real (unat (Stats_at (Stats (MemoryStats s)) ''cache''))),
         Fin (real (unat (Limit (MemoryStats s)))),
         memoryUtilization s]"
    by (simp only: d [symmetric])
      (simp add: memoryMetrics_world world0_def MustNewConstMetric_def float64_of_uint64_def
        memoryTotal_def)
next
  assume "unat (Usage (MemoryStats s)) < unat (Stats_at (Stats (MemoryStats s)) ''cache'')"
  have "real (unat (Stats_at (Stats (MemoryStats s)) ''cache'')) < 2 ^ 64"
    by (rule unat_real_bound)
  then show "0 < 2 ^ 64 + real (unat (Usage (MemoryStats s)))
                - real (unat (Stats_at (Stats (MemoryStats s)) ''cache''))"
    by (simp del: of_nat_unat add: add_pos_nonneg)
qed


theorem unsigned_differences_wrap_witness:
  "unat (TotalUsage (CPUUsage (CPUStats regressedStats)))
     < unat (TotalUsage (CPUUsage (PreCPUStats regressedStats)))
   \<and> unat (SystemUsage (CPUStats regressedStats)) < unat (SystemUsage (PreCPUStats regressedStats))
   \<and> unat (Usage (MemoryStats regressedStats))
       < unat (Stats_at (Stats (MemoryStats regressedStats)) ''cache'')
   \<and> map val (ch (CPUMetrics world0 regressedStats ''web-1'')) =
       [Fin (100 * 18446744073709551614 / 18446744073709551606), Fin (3 / 1000000000)]
   \<and> real (unat (sysemDelta regressedStats)) = 18446744073709551606
   \<and> map val (ch (memoryMetrics world0 regressedStats ''web-1'')) =
       [Fin 18446744073709551416, Fin 1000, memoryUtilization regressedStats]"
proof -
  have f: "TotalUsage (CPUUsage (CPUStats regressedStats)) = 3"
    "TotalUsage (CPUUsage (PreCPUStats regressedStats)) = 5"
    "SystemUsage (CPUStats regressedStats) = 10"
    "SystemUsage (PreCPUStats regressedStats) = 20"
    "Usage (MemoryStats regressedStats) = 100"
    "Stats_at (Stats (MemoryStats regressedStats)) ''cache'' = 300"
    "Limit (MemoryStats regressedStats) = 1000"
    by (simp_all add: regressedStats_def Stats_at_def)
  have d: "sysemDelta regressedStats = 18446744073709551606"
    by (simp add: sysemDelta_def f)
  show ?thesis
    using unsigned_differences_wrap [of regressedStats "''web-1''"]
    by (simp add: f d)
qed


subsection \<open>Block I/O\<close>

text \<open>
  C8. The totals of \<^verbatim>\<open>blockIoMetrics\<close> are the sums (in \<^verbatim>\<open>uint64\<close>) of the values of the
  records whose operation is \<^verbatim>\<open>read\<close>, respectively \<^verbatim>\<open>write\<close>, up to the case of the
  letters; the metrics sent carry these sums; permuting the records changes neither the
  totals nor the metrics; and a record with any other operation can be removed without
  changing the totals.
\<close>

theorem blockIo_totals_permutation_invariant:
  "blockIoTotals xs (0, 0) =
     (sum_list (map Value (filter (\<lambda>b. map toLower (Op b) = ''read'') xs)),
      sum_list (map Value (filter (\<lambda>b. map toLower (Op b) = ''write'') xs)))
   \<and> ch (blockIoMetrics w (s\<lparr>BlkioStats := \<lparr>IoServiceBytesRecursive = xs\<rparr>\<rparr>) n) = ch w @
       [MustNewConstMetric ''dex_block_io_read_bytes_total'' ''Block I/O read bytes''
          labelCname CounterValue
          (Fin (real (unat (sum_list (map Value
             (filter (\<lambda>b. map toLower (Op b) = ''read'') xs)))))) n,
        MustNewConstMetric ''dex_block_io_write_bytes_total'' ''Block I/O write bytes''
          labelCname CounterValue
          (Fin (real (unat (sum_list (map Value
             (filter (\<lambda>b. map toLower (Op b) = ''write'') xs)))))) n]
   \<and> (mset xs = mset ys \<longrightarrow>
        blockIoTotals xs (0, 0) = blockIoTotals ys (0, 0)
        \<and> blockIoMetrics w (s\<lparr>BlkioStats := \<lparr>IoServiceBytesRecursive = xs\<rparr>\<rparr>) n
            = blockIoMetrics w (s\<lparr>BlkioStats := \<lparr>IoServiceBytesRecursive = ys\<rparr>\<rparr>) n)
   \<and> (map toLower (Op b) \<noteq> ''read'' \<and> map toLower (Op b) \<noteq> ''write'' \<longrightarrow>
        blockIoTotals (xs @ b # zs) (0, 0) = blockIoTotals (xs @ zs) (0, 0))"
proof (intro conjI impI)
  show t: "\<And>xs. blockIoTotals xs (0, 0) =
     (sum_list (map Value (filter (\<lambda>b. map toLower (Op b) = ''read'') xs)),
      sum_list (map Value (filter (\<lambda>b. map toLower (Op b) = ''write'') xs)))"
    by (simp add: blockIoTotals_sums EqualFold_read EqualFold_write)
  show "ch (blockIoMetrics w (s\<lparr>BlkioStats := \<lparr>IoServiceBytesRecursive = xs\<rparr>\<rparr>) n) = ch w @
       [MustNewConstMetric ''dex_block_io_read_bytes_total'' ''Block I/O read bytes''
          labelCname CounterValue
          (Fin (real (unat (sum_list (map Value
             (filter (\<lambda>b. map toLower (Op b) = ''read'') xs)))))) n,
        MustNewConstMetric ''dex_block_io_write_bytes_total'' ''Block I/O write bytes''
          labelCname CounterValue
          (Fin (real (unat (sum_list (map Value
             (filter (\<lambda>b. map toLower (Op b) = ''write'') xs)))))) n]"
    by (simp add: blockIoMetrics_world t float64_of_uint64_def)
  assume p: "mset xs = mset ys"
  show e: "blockIoTotals xs (0, 0) = blockIoTotals ys (0, 0)"
    by (simp only: t sum_list_filter_mset [OF p])
  show "blockIoMetrics w (s\<lparr>BlkioStats := \<lparr>IoServiceBytesRecursive = xs\<rparr>\<rparr>) n
      = blockIoMetrics w (s\<lparr>BlkioStats := \<lparr>IoServiceBytesRecursive = ys\<rparr>\<rparr>) n"
    by (simp add: blockIoMetrics_def e)
next
  assume "map toLower (Op b) \<noteq> ''read'' \<and> map toLower (Op b) \<noteq> ''write''"
  then show "blockIoTotals (xs @ b # zs) (0, 0) = blockIoTotals (xs @ zs) (0, 0)"
    by (simp add: blockIoTotals_sums EqualFold_read EqualFold_write)
qed

theorem blockIo_totals_permutation_invariant_witness:
  "mset [\<lparr>Op = ''read'', Value = 100\<rparr>, \<lparr>Op = ''write'', Value = 50\<rparr>,
         \<lparr>Op = ''READ'', Value = 25\<rparr>]
     = mset [\<lparr>Op = ''READ'', Value = 25\<rparr>, \<lparr>Op = ''read'', Value = 100\<rparr>,
             \<lparr>Op = ''write'', Value = (50 :: uint64)\<rparr>]
   \<and> blockIoTotals [\<lparr>Op = ''read'', Value = 100\<rparr>, \<lparr>Op = ''write'', Value = 50\<rparr>,
         \<lparr>Op = ''READ'', Value = 25\<rparr>] (0, 0)
       = blockIoTotals [\<lparr>Op = ''READ'', Value = 25\<rparr>, \<lparr>Op = ''read'', Value = 100\<rparr>,
             \<lparr>Op = ''write'', Value = 50\<rparr>] (0, 0)
   \<and> blockIoTotals [\<lparr>Op = ''read'', Value = 100\<rparr>, \<lparr>Op = ''write'', Value = 50\<rparr>,
         \<lparr>Op = ''READ'', Value = 25\<rparr>] (0, 0) = (125, 50)
   \<and> blockIoTotals ([\<lparr>Op = ''read'', Value = 100\<rparr>] @ \<lparr>Op = ''discard'', Value = 9\<rparr>
         # [\<lparr>Op = ''Write'', Value = 50\<rparr>]) (0, 0) = (100, 50)"
proof -
  have p: "mset [\<lparr>Op = ''read'', Value = 100\<rparr>, \<lparr>Op = ''write'', Value = 50\<rparr>,
         \<lparr>Op = ''READ'', Value = 25\<rparr>]
     = mset [\<lparr>Op = ''READ'', Value = 25\<rparr>, \<lparr>Op = ''read'', Value = 100\<rparr>,
             \<lparr>Op = ''write'', Value = (50 :: uint64)\<rparr>]"
    by (simp add: add_mset_commute)
  have o: "map toLower (Op \<lparr>Op = ''discard'', Value = 9 :: uint64\<rparr>) \<noteq> ''read''
      \<and> map toLower (Op \<lparr>Op = ''discard'', Value = 9 :: uint64\<rparr>) \<noteq> ''write''"
    by (simp add: toLower_def)
  show ?thesis
    using p o
      blockIo_totals_permutation_invariant
        [where xs = "[\<lparr>Op = ''read'', Value = 100\<rparr>, \<lparr>Op = ''write'', Value = 50\<rparr>,
                      \<lparr>Op = ''READ'', Value = 25\<rparr>]"
           and ys = "[\<lparr>Op = ''READ'', Value = 25\<rparr>, \<lparr>Op = ''read'', Value = 100\<rparr>,
                      \<lparr>Op = ''write'', Value = 50\<rparr>]"
           and b = "\<lparr>Op = ''discard'', Value = 9\<rparr>" and zs = "[]"]
      blockIo_totals_permutation_invariant
        [where xs = "[\<lparr>Op = ''read'', Value = 100\<rparr>]" and ys = "[\<lparr>Op = ''read'', Value = 100\<rparr>]"
           and b = "\<lparr>Op = ''discard'', Value = 9\<rparr>" and zs = "[\<lparr>Op = ''Write'', Value = 50\<rparr>]"]
    by (simp add: EqualFold_def toLower_def)
qed

end
